theory Spec2Isabelle
  imports Main
begin

section \<open>Values and errors\<close>

text \<open>
  The entities are TypeScript classes compiled without strict null checks: a field or
  parameter declared \<^verbatim>\<open>string\<close> or \<^verbatim>\<open>number\<close> also admits \<^verbatim>\<open>undefined\<close> and
  \<^verbatim>\<open>null\<close>. Wherever the code stores such a value without a check, the model keeps
  the three cases apart.
\<close>

datatype 'a nullable = Undefined | Null | Val 'a

text \<open>What the code throws: the runtime's own errors and the errors of the setters.\<close>

datatype error =
    TypeError
  | SyntaxError
  | Thrown string
  | INVALID_AUTHOR
  | INVALID_NAME
  | INVALID_DATE
  | INVALID_OUTCOME

text \<open>String conversion of a nullable string, as template strings and \<^verbatim>\<open>+\<close> do it.\<close>

fun to_string :: "string nullable \<Rightarrow> string" where
  "to_string Undefined = ''undefined''"
| "to_string Null = ''null''"
| "to_string (Val s) = s"

text \<open>\<^verbatim>\<open>Array.from(set)[0]\<close>: the first element in insertion order, or \<^verbatim>\<open>undefined\<close>.\<close>

fun first :: "'a list \<Rightarrow> 'a nullable" where
  "first [] = Undefined"
| "first (x # xs) = Val x"

text \<open>\<^verbatim>\<open>set.has(value)\<close> on a set of strings.\<close>

definition has :: "string list \<Rightarrow> string nullable \<Rightarrow> bool" where
  "has vocabulary v = (case v of Val s \<Rightarrow> s \<in> set vocabulary | _ \<Rightarrow> False)"

text \<open>The truth value of a string: \<^verbatim>\<open>undefined\<close>, \<^verbatim>\<open>null\<close> and the empty string are falsy.\<close>

definition truthy_string :: "string nullable \<Rightarrow> bool" where
  "truthy_string v = (case v of Val s \<Rightarrow> s \<noteq> [] | _ \<Rightarrow> False)"

text \<open>The truth value of an object reference.\<close>

definition truthy :: "'a nullable \<Rightarrow> bool" where
  "truthy v = (case v of Undefined \<Rightarrow> False | Null \<Rightarrow> False | Val _ \<Rightarrow> True)"

text \<open>
  The taxonomy package is an external collaborator. Its vocabularies are parameters of
  the model: \<open>lengths\<close> and \<open>levels\<close> are sets in insertion order, \<open>verbs\<close> is an object
  keyed by level whose values are sets.
\<close>

record taxonomy =
  lengths :: "string list"
  levels :: "string list"
  verbs :: "string \<Rightarrow> string list option"

section \<open>The entities\<close>

subsection \<open>LearningOutcome (src/lib/learning-outcome.ts)\<close>

text \<open>
  \<open>'u\<close> stands for the class \<^verbatim>\<open>User\<close>, \<open>'m\<close> for the interface \<^verbatim>\<open>Outcome\<close> and \<open>'x\<close> for
  the values of injected properties (\<^verbatim>\<open>[key: string]: any\<close>); their declarations are not
  part of the sources. A tag is a number; the model takes the integers, among which the
  tag search moves.
\<close>

record 'u LearningOutcomeSource =
  src_author :: 'u
  src_name :: "string nullable"
  src_date :: "string nullable"

record AssessmentPlan =
  ap_sourceBloom :: "string nullable"
  ap_plan :: "string nullable"
  ap_text :: "string nullable"

text \<open>
  Modelled from the spec: the class \<^verbatim>\<open>InstructionalStrategy\<close> is not part of the sources;
  the spec describes it as a leaf entity with a bloom snapshot, a taxonomy-constrained
  kind and free text, like \<^verbatim>\<open>AssessmentPlan\<close>.
\<close>

record InstructionalStrategy =
  is_sourceBloom :: "string nullable"
  is_instruction :: "string nullable"
  is_text :: "string nullable"

record ('u, 'm, 'x) LearningOutcome =
  out_source :: "'u LearningOutcomeSource"
  out_tag :: "int nullable"
  out_bloom :: "string nullable"
  out_verb :: "string nullable"
  out_text :: "string nullable"
  out_mappings :: "'m list nullable"
  out_assessments :: "AssessmentPlan list"
  out_strategies :: "InstructionalStrategy list"
  out_injected :: "string \<Rightarrow> 'x option"

subsection \<open>LearningGoal (src/learning-goal.ts)\<close>

text \<open>
  A goal keeps a reference to the learning object it belongs to. No operation of the
  model reads it, and the reference is cyclic (the object holds the goal), so the record
  holds the text only.
\<close>

record LearningGoal =
  goal_text :: "string nullable"

subsection \<open>LearningObject (src/lib/learning-object.ts)\<close>

text \<open>
  Modelled from the spec: the interface \<^verbatim>\<open>Repository\<close> is not part of the sources; the
  constructor's literal gives its three keys, and the spec calls the entries opaque
  metadata, taken here as strings.
\<close>

record Repository =
  repo_files :: "string list"
  repo_urls :: "string list"
  repo_notes :: string

record ('u, 'm, 'x) LearningObject =
  lo_author :: 'u
  lo_name :: "string nullable"
  lo_date :: "string nullable"
  lo_length :: "string nullable"
  lo_goals :: "LearningGoal list"
  lo_outcomes :: "('u, 'm, 'x) LearningOutcome list"
  lo_repository :: "Repository nullable"

section \<open>Operations of LearningOutcome (src/lib/learning-outcome.ts)\<close>

subsection \<open>The constructor\<close>

text \<open>
  The \<^verbatim>\<open>for\<close> loop of the tag search: it breaks at the first outcome whose tag is
  strictly equal to the candidate. The result says whether it broke.
\<close>

fun collides :: "('u, 'm, 'x) LearningOutcome list \<Rightarrow> int \<Rightarrow> bool" where
  "collides [] t = False"
| "collides (outcome # rest) t = (if out_tag outcome = Val t then True else collides rest t)"

text \<open>The tags an outcome list carries.\<close>

definition tags :: "('u, 'm, 'x) LearningOutcome list \<Rightarrow> int set" where
  "tags outcomes = {t. Val t \<in> out_tag ` set outcomes}"

lemma collides_iff: "collides outcomes t \<longleftrightarrow> t \<in> tags outcomes"
  by (induction outcomes) (auto simp: tags_def)

lemma finite_tags: "finite (tags outcomes)"
proof -
  have "tags outcomes = Val -` (out_tag ` set outcomes)"
    by (auto simp: tags_def)
  moreover have "finite (Val -` (out_tag ` set outcomes) :: int set)"
    by (rule finite_vimageI) (simp_all add: inj_on_def)
  ultimately show ?thesis
    by simp
qed

text \<open>
  The \<^verbatim>\<open>while (searching)\<close> loop: a pass that breaks increments the tag and starts the
  next pass from the top of the list; a pass that runs through ends the search.
\<close>

function search :: "('u, 'm, 'x) LearningOutcome list \<Rightarrow> int \<Rightarrow> int" where
  "search outcomes t = (if collides outcomes t then search outcomes (t + 1) else t)"
  by pat_completeness auto
termination
proof (relation "measure (\<lambda>(outcomes, t). card {k \<in> tags outcomes. t \<le> k})")
  show "wf (measure (\<lambda>(outcomes :: ('u, 'm, 'x) LearningOutcome list, t). card {k \<in> tags outcomes. t \<le> k}))"
    by simp
next
  fix outcomes :: "('u, 'm, 'x) LearningOutcome list" and t :: int
  assume "collides outcomes t"
  then have t: "t \<in> tags outcomes"
    by (simp add: collides_iff)
  have "t \<in> {k \<in> tags outcomes. t \<le> k}" and "t \<notin> {k \<in> tags outcomes. t + 1 \<le> k}"
    using t by simp_all
  moreover have "{k \<in> tags outcomes. t + 1 \<le> k} \<subseteq> {k \<in> tags outcomes. t \<le> k}"
    by auto
  ultimately have "{k \<in> tags outcomes. t + 1 \<le> k} \<subset> {k \<in> tags outcomes. t \<le> k}"
    by blast
  moreover have "finite {k \<in> tags outcomes. t \<le> k}"
    by (simp add: finite_tags)
  ultimately have "card {k \<in> tags outcomes. t + 1 \<le> k} < card {k \<in> tags outcomes. t \<le> k}"
    by (rule psubset_card_mono [rotated])
  then show "((outcomes, t + 1), (outcomes, t))
      \<in> measure (\<lambda>(outcomes, t). card {k \<in> tags outcomes. t \<le> k})"
    by simp
qed

declare search.simps [simp del]

text \<open>
  The constructor reads \<^verbatim>\<open>source.author\<close>, \<^verbatim>\<open>source.name\<close> and \<^verbatim>\<open>source.date\<close> first:
  on \<^verbatim>\<open>undefined\<close> or \<^verbatim>\<open>null\<close> the read throws a TypeError. The \<^verbatim>\<open>if (source)\<close> guard
  around the search comes after. \<^verbatim>\<open>Array.from(verbs[bloom])\<close> throws a TypeError when the
  taxonomy has no entry for the level.
\<close>

definition new_LearningOutcome ::
  "taxonomy \<Rightarrow> ('u, 'm, 'x) LearningObject nullable \<Rightarrow> error + ('u, 'm, 'x) LearningOutcome" where
  "new_LearningOutcome tx source =
    (case source of
       Undefined \<Rightarrow> Inl TypeError
     | Null \<Rightarrow> Inl TypeError
     | Val s \<Rightarrow>
        (let src = \<lparr>src_author = lo_author s, src_name = lo_name s, src_date = lo_date s\<rparr>;
             tag = (if truthy source then search (lo_outcomes s) 0 else 0);
             bloom = first (levels tx)
         in case verbs tx (to_string bloom) of
              None \<Rightarrow> Inl TypeError
            | Some vs \<Rightarrow>
                Inr \<lparr>out_source = src, out_tag = Val tag, out_bloom = bloom,
                     out_verb = first vs, out_text = Val [], out_mappings = Val [],
                     out_assessments = [], out_strategies = [],
                     out_injected = (\<lambda>k. None)\<rparr>))"

subsection \<open>The setters of the bloom taxon and the verb\<close>

text \<open>
  \<^verbatim>\<open>verbs[this.bloom].has(verb)\<close> throws a TypeError when the taxonomy has no entry for
  the outcome's bloom taxon.
\<close>

definition set_bloom ::
  "taxonomy \<Rightarrow> string nullable \<Rightarrow> ('u, 'm, 'x) LearningOutcome \<Rightarrow> error + ('u, 'm, 'x) LearningOutcome" where
  "set_bloom tx bloom this =
    (if has (levels tx) bloom then Inr (this\<lparr>out_bloom := bloom\<rparr>)
     else Inl (Thrown (to_string bloom @ '' is not a valid Bloom taxon'')))"

definition set_verb ::
  "taxonomy \<Rightarrow> string nullable \<Rightarrow> ('u, 'm, 'x) LearningOutcome \<Rightarrow> error + ('u, 'm, 'x) LearningOutcome" where
  "set_verb tx verb this =
    (case verbs tx (to_string (out_bloom this)) of
       None \<Rightarrow> Inl TypeError
     | Some vs \<Rightarrow>
        if has vs verb then Inr (this\<lparr>out_verb := verb\<rparr>)
        else Inl (Thrown (to_string verb @ '' is not a valid verb for the '' @
               to_string (out_bloom this) @ '' taxon'')))"

subsection \<open>\<^verbatim>\<open>mapTo\<close>\<close>

text \<open>
  \<^verbatim>\<open>return this._mappings.push(mapping)\<close>: \<^verbatim>\<open>push\<close> appends and returns the new length
  of the array. The read of \<^verbatim>\<open>push\<close> throws a TypeError when the field holds no array.
  The result is the returned number and the outcome after the call.
\<close>

definition mapTo ::
  "'m \<Rightarrow> ('u, 'm, 'x) LearningOutcome \<Rightarrow> error + int \<times> ('u, 'm, 'x) LearningOutcome" where
  "mapTo mapping outcome =
    (case out_mappings outcome of
       Undefined \<Rightarrow> Inl TypeError
     | Null \<Rightarrow> Inl TypeError
     | Val ms \<Rightarrow>
        (let ms' = ms @ [mapping]
         in Inr (int (length ms'), outcome\<lparr>out_mappings := Val ms'\<rparr>)))"

subsection \<open>\<^verbatim>\<open>instantiate\<close>\<close>

text \<open>
  The properties object: the seven known keys, each holding a value of its declared type
  or \<^verbatim>\<open>undefined\<close> (a deleted or missing key reads as \<^verbatim>\<open>undefined\<close>), and the other
  keys with their values, in the order in which \<^verbatim>\<open>Object.keys\<close> lists them. \<open>'ap\<close> and
  \<open>'sp\<close> stand for \<^verbatim>\<open>AssessmentPlanProperties\<close> and
  \<^verbatim>\<open>InstructionalStrategyProperties\<close>. The values of the other keys are taken to be
  strings, \<^verbatim>\<open>undefined\<close> or \<^verbatim>\<open>null\<close>, the type of the setters they may reach.
\<close>

record ('m, 'ap, 'sp) LearningOutcomeProperties =
  p_tag :: "int nullable"
  p_bloom :: "string nullable"
  p_verb :: "string nullable"
  p_text :: "string nullable"
  p_mappings :: "'m list nullable"
  p_assessments :: "'ap list nullable"
  p_strategies :: "'sp list nullable"
  p_injected :: "(string \<times> string nullable) list"

text \<open>\<^verbatim>\<open>Array.prototype.map\<close> with a callback that may throw: the first throw ends the map.\<close>

fun map_result :: "('a \<Rightarrow> error + 'b) \<Rightarrow> 'a list \<Rightarrow> error + 'b list" where
  "map_result f [] = Inr []"
| "map_result f (x # xs) =
    (case f x of
       Inl e \<Rightarrow> Inl e
     | Inr y \<Rightarrow> (case map_result f xs of Inl e \<Rightarrow> Inl e | Inr ys \<Rightarrow> Inr (y # ys)))"

text \<open>
  \<^verbatim>\<open>object._assessments.map(...)\<close>: the read of \<^verbatim>\<open>map\<close> throws a TypeError on
  \<^verbatim>\<open>undefined\<close> and \<^verbatim>\<open>null\<close>.
\<close>

definition map_array :: "('a \<Rightarrow> error + 'b) \<Rightarrow> 'a list nullable \<Rightarrow> error + 'b list" where
  "map_array f arr =
    (case arr of Undefined \<Rightarrow> Inl TypeError | Null \<Rightarrow> Inl TypeError | Val xs \<Rightarrow> map_result f xs)"

text \<open>The seven \<^verbatim>\<open>delete\<close> statements.\<close>

definition delete_known ::
  "('m, 'ap, 'sp) LearningOutcomeProperties \<Rightarrow> ('m, 'ap, 'sp) LearningOutcomeProperties" where
  "delete_known object =
    object\<lparr>p_tag := Undefined, p_bloom := Undefined, p_verb := Undefined, p_text := Undefined,
      p_mappings := Undefined, p_assessments := Undefined, p_strategies := Undefined\<rparr>"

text \<open>
  \<^verbatim>\<open>outcome[key] = object[key]\<close>, in the strict-mode code of a class. What the
  assignment does depends on what the key names on the outcome and its prototypes:
  \<^item> \<^verbatim>\<open>bloom\<close>, \<^verbatim>\<open>verb\<close> and \<^verbatim>\<open>text\<close> are accessors with a setter: the setter runs;
  \<^item> the other accessors have a getter only: the assignment throws a TypeError;
  \<^item> \<^verbatim>\<open>__proto__\<close> is the accessor of \<^verbatim>\<open>Object.prototype\<close>: no property is created
    (the value \<^verbatim>\<open>null\<close> removes the prototype, see \<open>copy_injected\<close>);
  \<^item> any other key (a method name and \<^verbatim>\<open>_source\<close> included) becomes an own property of
    the outcome with that value. The own properties other than the typed fields are
    the bag \<open>out_injected\<close>; an entry \<^verbatim>\<open>_source\<close> of the bag replaces the snapshot.
\<close>

definition getter_only :: "string list" where
  "getter_only =
    [''source'', ''tag'', ''mappings'', ''assessments'', ''strategies'',
     ''author'', ''name'', ''date'', ''outcome'']"

text \<open>The keys that name an accessor of the class.\<close>

definition accessors :: "string list" where
  "accessors = [''bloom'', ''verb'', ''text''] @ getter_only"

definition own_property ::
  "string \<Rightarrow> 'x \<Rightarrow> ('u, 'm, 'x) LearningOutcome \<Rightarrow> ('u, 'm, 'x) LearningOutcome" where
  "own_property key v outcome = outcome\<lparr>out_injected := (out_injected outcome)(key \<mapsto> v)\<rparr>"

definition assign ::
  "taxonomy \<Rightarrow> string \<Rightarrow> string nullable \<Rightarrow> ('u, 'm, string nullable) LearningOutcome \<Rightarrow>
   error + ('u, 'm, string nullable) LearningOutcome" where
  "assign tx key v outcome =
    (if key = ''bloom'' then set_bloom tx v outcome
     else if key = ''verb'' then set_verb tx v outcome
     else if key = ''text'' then Inr (outcome\<lparr>out_text := v\<rparr>)
     else if key \<in> set getter_only then Inl TypeError
     else if key = ''__proto__'' then Inr outcome
     else Inr (own_property key v outcome))"

text \<open>
  The \<^verbatim>\<open>forEach\<close> over the remaining keys; a throw ends it. \<open>proto\<close> says whether the
  outcome still has its prototype: once \<^verbatim>\<open>__proto__\<close> has been assigned \<^verbatim>\<open>null\<close>, no
  accessor is found any more and every later key becomes an own property.
\<close>

fun copy_injected ::
  "taxonomy \<Rightarrow> bool \<Rightarrow> (string \<times> string nullable) list \<Rightarrow>
   ('u, 'm, string nullable) LearningOutcome \<Rightarrow> error + ('u, 'm, string nullable) LearningOutcome" where
  "copy_injected tx proto [] outcome = Inr outcome"
| "copy_injected tx proto ((key, v) # rest) outcome =
    (if \<not> proto then copy_injected tx False rest (own_property key v outcome)
     else if key = ''__proto__'' then copy_injected tx (v \<noteq> Null) rest outcome
     else case assign tx key v outcome of
            Inl e \<Rightarrow> Inl e
          | Inr outcome' \<Rightarrow> copy_injected tx True rest outcome')"

text \<open>
  \<^verbatim>\<open>AssessmentPlan.instantiate\<close> and \<^verbatim>\<open>InstructionalStrategy.instantiate\<close> are not part
  of the sources: they are the parameters \<open>ap_instantiate\<close> and \<open>is_instantiate\<close>, called
  with the outcome as it is at that moment. The result is what the call returns or
  throws, and the caller's properties object after the call: a throw of the constructor
  or of one of the two maps comes before the \<^verbatim>\<open>delete\<close> statements, a throw while the
  other keys are copied comes after them.
\<close>

definition instantiate ::
  "taxonomy \<Rightarrow>
   (('u, 'm, string nullable) LearningOutcome \<Rightarrow> 'ap \<Rightarrow> error + AssessmentPlan) \<Rightarrow>
   (('u, 'm, string nullable) LearningOutcome \<Rightarrow> 'sp \<Rightarrow> error + InstructionalStrategy) \<Rightarrow>
   ('u, 'm, string nullable) LearningObject nullable \<Rightarrow> ('m, 'ap, 'sp) LearningOutcomeProperties \<Rightarrow>
   (error + ('u, 'm, string nullable) LearningOutcome) \<times> ('m, 'ap, 'sp) LearningOutcomeProperties" where
  "instantiate tx ap_instantiate is_instantiate source object =
    (case new_LearningOutcome tx source of
       Inl e \<Rightarrow> (Inl e, object)
     | Inr outcome0 \<Rightarrow>
        (let outcome1 = outcome0\<lparr>out_tag := p_tag object, out_bloom := p_bloom object,
               out_verb := p_verb object, out_text := p_text object,
               out_mappings := p_mappings object\<rparr>
         in case map_array (ap_instantiate outcome1) (p_assessments object) of
              Inl e \<Rightarrow> (Inl e, object)
            | Inr plans \<Rightarrow>
               (let outcome2 = outcome1\<lparr>out_assessments := plans\<rparr>
                in case map_array (is_instantiate outcome2) (p_strategies object) of
                     Inl e \<Rightarrow> (Inl e, object)
                   | Inr strategies \<Rightarrow>
                      (let outcome3 = outcome2\<lparr>out_strategies := strategies\<rparr>;
                           object' = delete_known object
                       in (copy_injected tx True (p_injected object') outcome3, object')))))"

section \<open>LearningOutcome (src/lib/learning-outcome/learning-outcome.ts)\<close>

text \<open>
  The later variant of the class, constructed from a partial object and holding
  \<^verbatim>\<open>StandardOutcome\<close> mappings (\<open>'s\<close>).
\<close>

record 's LearningOutcome2 =
  v2_id :: "string nullable"
  v2_bloom :: "string nullable"
  v2_verb :: "string nullable"
  v2_text :: "string nullable"
  v2_mappings :: "'s list"

text \<open>\<^verbatim>\<open>return this._mappings.push(mapping) - 1\<close>.\<close>

definition mapTo2 :: "'s \<Rightarrow> 's LearningOutcome2 \<Rightarrow> int \<times> 's LearningOutcome2" where
  "mapTo2 mapping outcome =
    (let ms' = v2_mappings outcome @ [mapping]
     in (int (length ms') - 1, outcome\<lparr>v2_mappings := ms'\<rparr>))"

section \<open>Operations of LearningObject (src/lib/learning-object.ts)\<close>

definition set_name ::
  "string nullable \<Rightarrow> ('u, 'm, 'x) LearningObject \<Rightarrow> error + ('u, 'm, 'x) LearningObject" where
  "set_name name entity = Inr (entity\<lparr>lo_name := name\<rparr>)"

definition set_date ::
  "string nullable \<Rightarrow> ('u, 'm, 'x) LearningObject \<Rightarrow> error + ('u, 'm, 'x) LearningObject" where
  "set_date date entity = Inr (entity\<lparr>lo_date := date\<rparr>)"

definition set_length ::
  "taxonomy \<Rightarrow> string nullable \<Rightarrow> ('u, 'm, 'x) LearningObject \<Rightarrow>
   error + ('u, 'm, 'x) LearningObject" where
  "set_length tx length' entity =
    (if has (lengths tx) length' then Inr (entity\<lparr>lo_length := length'\<rparr>)
     else Inl (Thrown (to_string length' @ '' is not a valid Learning Object class'')))"

definition new_LearningObject ::
  "taxonomy \<Rightarrow> 'u \<Rightarrow> string nullable \<Rightarrow> ('u, 'm, 'x) LearningObject" where
  "new_LearningObject tx author name =
    \<lparr>lo_author = author,
     lo_name = (if \<not> truthy_string name then Val [] else name),
     lo_date = Val [],
     lo_length = first (lengths tx),
     lo_goals = [],
     lo_outcomes = [],
     lo_repository = Val \<lparr>repo_files = [], repo_urls = [], repo_notes = []\<rparr>\<rparr>"

definition new_LearningGoal :: "('u, 'm, 'x) LearningObject \<Rightarrow> LearningGoal" where
  "new_LearningGoal source = \<lparr>goal_text = Val []\<rparr>"

text \<open>
  \<^verbatim>\<open>array.splice(i, 1)[0]\<close>: a negative index counts from the end, an index out of range
  removes nothing and the result is \<^verbatim>\<open>undefined\<close>. The result is the removed element
  and the array after the call.
\<close>

definition splice1 :: "int \<Rightarrow> 'a list \<Rightarrow> 'a nullable \<times> 'a list" where
  "splice1 i xs =
    (let n = int (length xs);
         start = (if i < 0 then max (n + i) 0 else min i n)
     in if start < n then (Val (xs ! nat start), take (nat start) xs @ drop (nat start + 1) xs)
        else (Undefined, xs))"

text \<open>The add and remove methods: the returned value and the object after the call.\<close>

definition addGoal ::
  "('u, 'm, 'x) LearningObject \<Rightarrow> LearningGoal \<times> ('u, 'm, 'x) LearningObject" where
  "addGoal entity =
    (let goal = new_LearningGoal entity
     in (goal, entity\<lparr>lo_goals := lo_goals entity @ [goal]\<rparr>))"

definition removeGoal ::
  "int \<Rightarrow> ('u, 'm, 'x) LearningObject \<Rightarrow> LearningGoal nullable \<times> ('u, 'm, 'x) LearningObject" where
  "removeGoal i entity =
    (case splice1 i (lo_goals entity) of (removed, goals) \<Rightarrow> (removed, entity\<lparr>lo_goals := goals\<rparr>))"

definition addOutcome ::
  "taxonomy \<Rightarrow> ('u, 'm, 'x) LearningObject \<Rightarrow>
   error + ('u, 'm, 'x) LearningOutcome \<times> ('u, 'm, 'x) LearningObject" where
  "addOutcome tx entity =
    (case new_LearningOutcome tx (Val entity) of
       Inl e \<Rightarrow> Inl e
     | Inr outcome \<Rightarrow> Inr (outcome, entity\<lparr>lo_outcomes := lo_outcomes entity @ [outcome]\<rparr>))"

definition removeOutcome ::
  "int \<Rightarrow> ('u, 'm, 'x) LearningObject \<Rightarrow>
   ('u, 'm, 'x) LearningOutcome nullable \<times> ('u, 'm, 'x) LearningObject" where
  "removeOutcome i entity =
    (case splice1 i (lo_outcomes entity) of
       (removed, outcomes) \<Rightarrow> (removed, entity\<lparr>lo_outcomes := outcomes\<rparr>))"

section \<open>Serialization\<close>

text \<open>
  \<^verbatim>\<open>JSON.stringify\<close> and \<^verbatim>\<open>JSON.parse\<close> belong to the platform, not to the
  repository: they are parameters of the model, taken at the two shapes of document the
  code writes and reads. A key whose value is \<^verbatim>\<open>undefined\<close> is left out by
  \<^verbatim>\<open>JSON.stringify\<close>, and a key that is missing reads as \<^verbatim>\<open>undefined\<close> after
  \<^verbatim>\<open>JSON.parse\<close>: every field of a document is nullable, the two arrays and the
  repository included (\<open>Undefined\<close> and \<open>Null\<close> also stand for a value that is no array).
  A parser returns \<open>None\<close> where \<^verbatim>\<open>JSON.parse\<close> throws a SyntaxError, \<open>Some Null\<close> for
  a text that denotes no object (\<^verbatim>\<open>null\<close>), and \<open>Some (Val doc)\<close> for an object, read at
  the keys the code reads (a text that denotes a number, a string or an array is read
  like an object without those keys). Strings and the elements of the arrays have their
  declared type.
\<close>

record LearningGoalDoc =
  doc_text :: "string nullable"

record LearningObjectDoc =
  doc_name :: "string nullable"
  doc_date :: "string nullable"
  doc_length :: "string nullable"
  doc_goals :: "string list nullable"
  doc_outcomes :: "string list nullable"
  doc_repository :: "Repository nullable"

record JSON =
  stringify_goal :: "LearningGoalDoc \<Rightarrow> string"
  parse_goal :: "string \<Rightarrow> LearningGoalDoc nullable option"
  stringify_object :: "LearningObjectDoc \<Rightarrow> string"
  parse_object :: "string \<Rightarrow> LearningObjectDoc nullable option"

subsection \<open>LearningGoal\<close>

definition LearningGoal_serialize :: "JSON \<Rightarrow> LearningGoal \<Rightarrow> string" where
  "LearningGoal_serialize J entity = stringify_goal J \<lparr>doc_text = goal_text entity\<rparr>"

text \<open>
  \<^verbatim>\<open>JSON.parse(msg)\<close> may throw a SyntaxError; the read \<^verbatim>\<open>doc.text\<close> throws a TypeError
  when the text denotes \<^verbatim>\<open>null\<close>.
\<close>

definition LearningGoal_unserialize ::
  "JSON \<Rightarrow> string \<Rightarrow> ('u, 'm, 'x) LearningObject \<Rightarrow> error + LearningGoal" where
  "LearningGoal_unserialize J msg parent =
    (case parse_goal J msg of
       None \<Rightarrow> Inl SyntaxError
     | Some doc' \<Rightarrow>
        (let entity = new_LearningGoal parent
         in case doc' of
              Undefined \<Rightarrow> Inl TypeError
            | Null \<Rightarrow> Inl TypeError
            | Val doc \<Rightarrow> Inr (entity\<lparr>goal_text := doc_text doc\<rparr>)))"

subsection \<open>LearningObject\<close>

text \<open>
  \<^verbatim>\<open>LearningOutcome.serialize\<close> and \<^verbatim>\<open>LearningOutcome.unserialize\<close> are called by the
  code below and are not part of the sources: they are the parameters
  \<open>outcome_serialize\<close> and \<open>outcome_unserialize\<close>.
\<close>

text \<open>The object literal that \<^verbatim>\<open>serialize\<close> hands to \<^verbatim>\<open>JSON.stringify\<close>.\<close>

definition LearningObject_document ::
  "JSON \<Rightarrow> (('u, 'm, 'x) LearningOutcome \<Rightarrow> string) \<Rightarrow> ('u, 'm, 'x) LearningObject \<Rightarrow>
   LearningObjectDoc" where
  "LearningObject_document J outcome_serialize entity =
    \<lparr>doc_name = lo_name entity,
     doc_date = lo_date entity,
     doc_length = lo_length entity,
     doc_goals = Val (map (LearningGoal_serialize J) (lo_goals entity)),
     doc_outcomes = Val (map outcome_serialize (lo_outcomes entity)),
     doc_repository = lo_repository entity\<rparr>"

definition LearningObject_serialize ::
  "JSON \<Rightarrow> (('u, 'm, 'x) LearningOutcome \<Rightarrow> string) \<Rightarrow> ('u, 'm, 'x) LearningObject \<Rightarrow> string" where
  "LearningObject_serialize J outcome_serialize entity =
    stringify_object J (LearningObject_document J outcome_serialize entity)"

text \<open>
  \<^verbatim>\<open>unserialize\<close> parses the text, constructs a new object and assigns the private
  fields one after the other. The read \<^verbatim>\<open>doc.name\<close> throws a TypeError when the text
  denotes \<^verbatim>\<open>null\<close>; \<^verbatim>\<open>doc.goals.map\<close> and \<^verbatim>\<open>doc.outcomes.map\<close> throw a TypeError when
  the document holds no array there. Each callback of a \<^verbatim>\<open>map\<close> sees the entity as it
  is when the map runs (the array under construction is assigned after its map has
  ended).
\<close>

definition LearningObject_unserialize ::
  "taxonomy \<Rightarrow> JSON \<Rightarrow>
   (string \<Rightarrow> ('u, 'm, 'x) LearningObject \<Rightarrow> error + ('u, 'm, 'x) LearningOutcome) \<Rightarrow>
   string \<Rightarrow> 'u \<Rightarrow> error + ('u, 'm, 'x) LearningObject" where
  "LearningObject_unserialize tx J outcome_unserialize msg parent =
    (case parse_object J msg of
       None \<Rightarrow> Inl SyntaxError
     | Some doc' \<Rightarrow>
        (let entity0 = new_LearningObject tx parent Undefined
         in case doc' of
              Undefined \<Rightarrow> Inl TypeError
            | Null \<Rightarrow> Inl TypeError
            | Val doc \<Rightarrow>
               (let entity1 = entity0\<lparr>lo_name := doc_name doc, lo_date := doc_date doc,
                      lo_length := doc_length doc\<rparr>
                in case map_array (\<lambda>a. LearningGoal_unserialize J a entity1) (doc_goals doc) of
                     Inl e \<Rightarrow> Inl e
                   | Inr goals \<Rightarrow>
                      (let entity2 = entity1\<lparr>lo_goals := goals\<rparr>
                       in case map_array (\<lambda>a. outcome_unserialize a entity2)
                                 (doc_outcomes doc) of
                            Inl e \<Rightarrow> Inl e
                          | Inr outcomes \<Rightarrow>
                              Inr (entity2\<lparr>lo_outcomes := outcomes,
                                     lo_repository := doc_repository doc\<rparr>)))))"



section \<open>StandardOutcome (src/lib/learning-outcome.ts)\<close>

text \<open>
  Strings are lists of code units below 256. \<^verbatim>\<open>String.prototype.trim\<close> removes white
  space and line terminators from both ends; in this range they are the code units 9 to
  13, 32 and 160.
\<close>

definition is_whitespace :: "char \<Rightarrow> bool" where
  "is_whitespace c = (of_char c \<in> {9, 10, 11, 12, 13, 32, 160 :: nat})"

definition trim :: "string \<Rightarrow> string" where
  "trim s = rev (dropWhile is_whitespace (rev (dropWhile is_whitespace s)))"

record StandardOutcome =
  so_author :: string
  so_name :: string
  so_date :: string
  so_outcome :: string

text \<open>The getters: all four return the field \<^verbatim>\<open>_author\<close>.\<close>

definition get_author :: "StandardOutcome \<Rightarrow> string" where
  "get_author this = so_author this"

definition get_name :: "StandardOutcome \<Rightarrow> string" where
  "get_name this = so_author this"

definition get_date :: "StandardOutcome \<Rightarrow> string" where
  "get_date this = so_author this"

definition get_outcome :: "StandardOutcome \<Rightarrow> string" where
  "get_outcome this = so_author this"

text \<open>
  The guard of each setter, \<^verbatim>\<open>value && value.trim()\<close>: the value is truthy and what
  \<^verbatim>\<open>trim\<close> leaves of it is not the empty string.
\<close>

definition valid_field :: "string nullable \<Rightarrow> bool" where
  "valid_field v = (case v of Val s \<Rightarrow> s \<noteq> [] \<and> trim s \<noteq> [] | _ \<Rightarrow> False)"

definition set_so_author :: "string nullable \<Rightarrow> StandardOutcome \<Rightarrow> error + StandardOutcome" where
  "set_so_author author this =
    (case author of
       Val s \<Rightarrow> if valid_field author then Inr (this\<lparr>so_author := s\<rparr>) else Inl INVALID_AUTHOR
     | _ \<Rightarrow> Inl INVALID_AUTHOR)"

definition set_so_name :: "string nullable \<Rightarrow> StandardOutcome \<Rightarrow> error + StandardOutcome" where
  "set_so_name name this =
    (case name of
       Val s \<Rightarrow> if valid_field name then Inr (this\<lparr>so_name := s\<rparr>) else Inl INVALID_NAME
     | _ \<Rightarrow> Inl INVALID_NAME)"

definition set_so_date :: "string nullable \<Rightarrow> StandardOutcome \<Rightarrow> error + StandardOutcome" where
  "set_so_date date this =
    (case date of
       Val s \<Rightarrow> if valid_field date then Inr (this\<lparr>so_date := s\<rparr>) else Inl INVALID_DATE
     | _ \<Rightarrow> Inl INVALID_DATE)"

definition set_so_outcome :: "string nullable \<Rightarrow> StandardOutcome \<Rightarrow> error + StandardOutcome" where
  "set_so_outcome outcome this =
    (case outcome of
       Val s \<Rightarrow> if valid_field outcome then Inr (this\<lparr>so_outcome := s\<rparr>) else Inl INVALID_OUTCOME
     | _ \<Rightarrow> Inl INVALID_OUTCOME)"

text \<open>
  The constructor's argument, \<^verbatim>\<open>Partial<StandardOutcome>\<close>: a plain object in which each
  of the four properties may be missing.
\<close>

record PartialStandardOutcome =
  part_author :: "string nullable"
  part_name :: "string nullable"
  part_date :: "string nullable"
  part_outcome :: "string nullable"

text \<open>
  \<^verbatim>\<open>copyOutcome\<close>: four guarded assignments in a row. Each assignment runs the setter of
  the class, and a throw ends the method.
\<close>

definition copyOutcome :: "PartialStandardOutcome \<Rightarrow> StandardOutcome \<Rightarrow> error + StandardOutcome" where
  "copyOutcome outcome this =
    (case (if truthy_string (part_author outcome) then set_so_author (part_author outcome) this
           else Inr this) of
       Inl e \<Rightarrow> Inl e
     | Inr this1 \<Rightarrow>
        (case (if truthy_string (part_name outcome) then set_so_name (part_name outcome) this1
               else Inr this1) of
           Inl e \<Rightarrow> Inl e
         | Inr this2 \<Rightarrow>
            (case (if truthy_string (part_date outcome)
                   then set_so_date (part_date outcome) this2 else Inr this2) of
               Inl e \<Rightarrow> Inl e
             | Inr this3 \<Rightarrow>
                (if truthy_string (part_outcome outcome)
                 then set_so_outcome (part_outcome outcome) this3 else Inr this3))))"

definition new_StandardOutcome :: "PartialStandardOutcome nullable \<Rightarrow> error + StandardOutcome" where
  "new_StandardOutcome outcome =
    (let this = \<lparr>so_author = [], so_name = [], so_date = [], so_outcome = []\<rparr>
     in case outcome of Val p \<Rightarrow> copyOutcome p this | _ \<Rightarrow> Inr this)"

text \<open>
  Two notions for stating what the constructor does with a property of its argument: the
  property is present and consists of white space only; and the string the property
  holds, or the empty string when it holds none.
\<close>

definition whitespace_only :: "string nullable \<Rightarrow> bool" where
  "whitespace_only v = (case v of Val s \<Rightarrow> s \<noteq> [] \<and> (\<forall>c\<in>set s. is_whitespace c) | _ \<Rightarrow> False)"

definition or_empty :: "string nullable \<Rightarrow> string" where
  "or_empty v = (case v of Val s \<Rightarrow> s | _ \<Rightarrow> [])"

section \<open>Example values\<close>

text \<open>
  Modelled from the spec: the five lengths are those the spec lists; the levels and their
  verbs are examples of the taxonomy's vocabularies.
\<close>

definition example_taxonomy :: taxonomy where
  "example_taxonomy =
    \<lparr>lengths = [''nanomodule'', ''micromodule'', ''module'', ''unit'', ''course''],
     levels = [''remember'', ''apply''],
     verbs = (\<lambda>k. if k = ''remember'' then Some [''define'', ''list'']
                 else if k = ''apply'' then Some [''use''] else None)\<rparr>"

definition blank_outcome :: "int nullable \<Rightarrow> (string, string, string) LearningOutcome" where
  "blank_outcome t =
    \<lparr>out_source = \<lparr>src_author = ''ann'', src_name = Val ''crypto'', src_date = Val []\<rparr>,
     out_tag = t, out_bloom = Val ''remember'', out_verb = Val ''define'', out_text = Val [],
     out_mappings = Val [], out_assessments = [], out_strategies = [],
     out_injected = (\<lambda>k. None)\<rparr>"

definition example_object :: "(string, string, string) LearningObject" where
  "example_object =
    \<lparr>lo_author = ''ann'', lo_name = Val ''crypto'', lo_date = Val [],
     lo_length = Val ''nanomodule'', lo_goals = [],
     lo_outcomes = [blank_outcome (Val 0), blank_outcome (Val 2), blank_outcome (Val 1)],
     lo_repository = Val \<lparr>repo_files = [], repo_urls = [], repo_notes = []\<rparr>\<rparr>"

definition fresh_object :: "(string, string, string) LearningObject" where
  "fresh_object = new_LearningObject example_taxonomy ''ann'' (Val ''crypto'')"

definition example_standard :: StandardOutcome where
  "example_standard = \<lparr>so_author = ''NIST'', so_name = ''NICE'', so_date = ''2017'', so_outcome = ''Analyze''\<rparr>"

definition example_partial :: PartialStandardOutcome where
  "example_partial =
    \<lparr>part_author = Val ''NIST'', part_name = Undefined, part_date = Val [], part_outcome = Null\<rparr>"

definition blank_outcome2 :: "string LearningOutcome2" where
  "blank_outcome2 =
    \<lparr>v2_id = Undefined, v2_bloom = Val ''remember'', v2_verb = Val ''define'', v2_text = Val [],
     v2_mappings = []\<rparr>"

text \<open>
  An instance of the platform's JSON functions for the examples: the text
  \<^verbatim>\<open>JSON.stringify\<close> writes for a document of each of the two shapes (strings without
  control characters), and a parser that knows the texts of the example documents.
\<close>

definition json_string :: "string \<Rightarrow> string" where
  \<open>json_string s =
    ''"'' @ concat (map (\<lambda>c. if c = CHR ''"'' \<or> c = CHR 0x5C then [CHR 0x5C, c] else [c]) s) @ ''"''\<close>

fun join :: "string list \<Rightarrow> string" where
  "join [] = []"
| "join [x] = x"
| "join (x # y # ys) = x @ '','' @ join (y # ys)"

definition json_member :: "string \<Rightarrow> string nullable \<Rightarrow> string list" where
  "json_member key v =
    (case v of
       Undefined \<Rightarrow> []
     | Null \<Rightarrow> [json_string key @ '':null'']
     | Val s \<Rightarrow> [json_string key @ '':'' @ json_string s])"

definition json_array :: "string list \<Rightarrow> string" where
  "json_array items = ''['' @ join items @ '']''"

definition json_object :: "string list \<Rightarrow> string" where
  "json_object members = ''{'' @ join members @ ''}''"

definition json_strings :: "string \<Rightarrow> string list nullable \<Rightarrow> string list" where
  "json_strings key v =
    (case v of
       Undefined \<Rightarrow> []
     | Null \<Rightarrow> [json_string key @ '':null'']
     | Val xs \<Rightarrow> [json_string key @ '':'' @ json_array (map json_string xs)])"

definition json_repository :: "Repository nullable \<Rightarrow> string list" where
  "json_repository v =
    (case v of
       Undefined \<Rightarrow> []
     | Null \<Rightarrow> [json_string ''repository'' @ '':null'']
     | Val r \<Rightarrow>
        [json_string ''repository'' @ '':'' @
          json_object
            (json_strings ''files'' (Val (repo_files r)) @ json_strings ''urls'' (Val (repo_urls r)) @
             json_member ''notes'' (Val (repo_notes r)))])"

definition example_stringify_goal :: "LearningGoalDoc \<Rightarrow> string" where
  "example_stringify_goal doc = json_object (json_member ''text'' (doc_text doc))"

definition example_stringify_object :: "LearningObjectDoc \<Rightarrow> string" where
  "example_stringify_object doc =
    json_object
      (json_member ''name'' (doc_name doc) @ json_member ''date'' (doc_date doc) @
       json_member ''length'' (doc_length doc) @ json_strings ''goals'' (doc_goals doc) @
       json_strings ''outcomes'' (doc_outcomes doc) @ json_repository (doc_repository doc))"

definition invalid_object_doc :: LearningObjectDoc where
  "invalid_object_doc =
    \<lparr>doc_name = Val ''crypto'', doc_date = Val [], doc_length = Val ''fortnight'',
     doc_goals = Val [], doc_outcomes = Val [],
     doc_repository = Val \<lparr>repo_files = [], repo_urls = [], repo_notes = []\<rparr>\<rparr>"

definition name_only_doc :: LearningObjectDoc where
  "name_only_doc =
    \<lparr>doc_name = Val ''crypto'', doc_date = Undefined, doc_length = Undefined,
     doc_goals = Undefined, doc_outcomes = Undefined, doc_repository = Undefined\<rparr>"

definition example_JSON :: JSON where
  "example_JSON =
    \<lparr>stringify_goal = example_stringify_goal,
     parse_goal = (\<lambda>msg. if msg = ''null'' then Some Null else None),
     stringify_object = example_stringify_object,
     parse_object = (\<lambda>msg. if msg = example_stringify_object invalid_object_doc
                           then Some (Val invalid_object_doc)
                           else if msg = example_stringify_object name_only_doc
                           then Some (Val name_only_doc)
                           else if msg = ''null'' then Some Null
                           else None)\<rparr>"

text \<open>
  A second instance of the two platform functions, for which the parser is proved to
  invert the writer on every document: a text format with length prefixes in place of
  JSON's quoting. A number is written in unary, a string after its length, an array
  after its length, a nullable value after a letter that tells its case.
\<close>

definition enc_nat :: "nat \<Rightarrow> string" where
  "enc_nat n = replicate n (CHR ''1'') @ ''0''"

definition dec_nat :: "string \<Rightarrow> nat \<times> string" where
  "dec_nat t =
    (let n = length (takeWhile (\<lambda>c. c = CHR ''1'') t) in (n, drop (Suc n) t))"

definition enc_string :: "string \<Rightarrow> string" where
  "enc_string s = enc_nat (length s) @ s"

definition dec_string :: "string \<Rightarrow> string \<times> string" where
  "dec_string t = (case dec_nat t of (n, r) \<Rightarrow> (take n r, drop n r))"

definition enc_strings :: "string list \<Rightarrow> string" where
  "enc_strings xs = enc_nat (length xs) @ concat (map enc_string xs)"

fun dec_many :: "nat \<Rightarrow> string \<Rightarrow> string list \<times> string" where
  "dec_many 0 t = ([], t)"
| "dec_many (Suc n) t =
    (case dec_string t of (x, r) \<Rightarrow> (case dec_many n r of (xs, r') \<Rightarrow> (x # xs, r')))"

definition dec_strings :: "string \<Rightarrow> string list \<times> string" where
  "dec_strings t = (case dec_nat t of (n, r) \<Rightarrow> dec_many n r)"

definition enc_nullable :: "('a \<Rightarrow> string) \<Rightarrow> 'a nullable \<Rightarrow> string" where
  "enc_nullable enc v =
    (case v of Undefined \<Rightarrow> ''u'' | Null \<Rightarrow> ''n'' | Val x \<Rightarrow> CHR ''v'' # enc x)"

definition dec_nullable :: "(string \<Rightarrow> 'a \<times> string) \<Rightarrow> string \<Rightarrow> 'a nullable \<times> string" where
  "dec_nullable dec t =
    (case t of
       [] \<Rightarrow> (Undefined, [])
     | c # r \<Rightarrow>
        if c = CHR ''u'' then (Undefined, r)
        else if c = CHR ''n'' then (Null, r)
        else (case dec r of (x, r') \<Rightarrow> (Val x, r')))"

definition enc_repository :: "Repository \<Rightarrow> string" where
  "enc_repository r = enc_strings (repo_files r) @ enc_strings (repo_urls r) @ enc_string (repo_notes r)"

definition dec_repository :: "string \<Rightarrow> Repository \<times> string" where
  "dec_repository t =
    (case dec_strings t of (fs, r1) \<Rightarrow>
       (case dec_strings r1 of (us, r2) \<Rightarrow>
          (case dec_string r2 of (n, r3) \<Rightarrow>
             (\<lparr>repo_files = fs, repo_urls = us, repo_notes = n\<rparr>, r3))))"

definition enc_goal :: "LearningGoalDoc \<Rightarrow> string" where
  "enc_goal doc = enc_nullable enc_string (doc_text doc)"

definition dec_goal :: "string \<Rightarrow> LearningGoalDoc" where
  "dec_goal t = \<lparr>doc_text = fst (dec_nullable dec_string t)\<rparr>"

definition enc_object :: "LearningObjectDoc \<Rightarrow> string" where
  "enc_object doc =
    enc_nullable enc_string (doc_name doc) @ enc_nullable enc_string (doc_date doc) @
    enc_nullable enc_string (doc_length doc) @ enc_nullable enc_strings (doc_goals doc) @
    enc_nullable enc_strings (doc_outcomes doc) @ enc_nullable enc_repository (doc_repository doc)"

definition dec_object :: "string \<Rightarrow> LearningObjectDoc" where
  "dec_object t =
    (case dec_nullable dec_string t of (n, r1) \<Rightarrow>
       (case dec_nullable dec_string r1 of (d, r2) \<Rightarrow>
          (case dec_nullable dec_string r2 of (l, r3) \<Rightarrow>
             (case dec_nullable dec_strings r3 of (gs, r4) \<Rightarrow>
                (case dec_nullable dec_strings r4 of (os, r5) \<Rightarrow>
                   (case dec_nullable dec_repository r5 of (rp, r6) \<Rightarrow>
                      \<lparr>doc_name = n, doc_date = d, doc_length = l, doc_goals = gs,
                       doc_outcomes = os, doc_repository = rp\<rparr>))))))"

definition prefix_JSON :: JSON where
  "prefix_JSON =
    \<lparr>stringify_goal = enc_goal,
     parse_goal = (\<lambda>msg. Some (Val (dec_goal msg))),
     stringify_object = enc_object,
     parse_object = (\<lambda>msg. Some (Val (dec_object msg)))\<rparr>"

text \<open>
  Instances of the two missing pairs of functions: an outcome serializer and its
  inverse on the tag of a blank outcome, and the \<^verbatim>\<open>instantiate\<close> functions of the
  assessment plans and the instructional strategies, with a string as their properties.
\<close>

definition example_outcome_serialize :: "(string, string, string) LearningOutcome \<Rightarrow> string" where
  "example_outcome_serialize outcome =
    (case out_tag outcome of Val t \<Rightarrow> enc_nat (nat t) | _ \<Rightarrow> [])"

definition example_outcome_unserialize ::
  "string \<Rightarrow> (string, string, string) LearningObject \<Rightarrow> error + (string, string, string) LearningOutcome" where
  "example_outcome_unserialize msg parent =
    (if msg = [] then Inl SyntaxError else Inr (blank_outcome (Val (int (fst (dec_nat msg))))))"

definition serialized_object :: "(string, string, string) LearningObject" where
  "serialized_object =
    \<lparr>lo_author = ''ann'', lo_name = Val ''crypto'', lo_date = Val [],
     lo_length = Val ''nanomodule'', lo_goals = [\<lparr>goal_text = Val ''learn''\<rparr>],
     lo_outcomes = [blank_outcome (Val 0), blank_outcome (Val 1)],
     lo_repository = Val \<lparr>repo_files = [''a.pdf''], repo_urls = [], repo_notes = ''see''\<rparr>\<rparr>"

definition example_ap_instantiate ::
  "(string, string, string nullable) LearningOutcome \<Rightarrow> string \<Rightarrow> error + AssessmentPlan" where
  "example_ap_instantiate outcome plan =
    Inr \<lparr>ap_sourceBloom = out_bloom outcome, ap_plan = Val plan, ap_text = Val []\<rparr>"

definition example_is_instantiate ::
  "(string, string, string nullable) LearningOutcome \<Rightarrow> string \<Rightarrow> error + InstructionalStrategy" where
  "example_is_instantiate outcome instruction =
    Inr \<lparr>is_sourceBloom = out_bloom outcome, is_instruction = Val instruction, is_text = Val []\<rparr>"

definition example_source :: "(string, string, string nullable) LearningObject" where
  "example_source =
    \<lparr>lo_author = ''ann'', lo_name = Val ''crypto'', lo_date = Val [],
     lo_length = Val ''nanomodule'', lo_goals = [], lo_outcomes = [],
     lo_repository = Val \<lparr>repo_files = [], repo_urls = [], repo_notes = []\<rparr>\<rparr>"

definition invalid_properties :: "(string, string, string) LearningOutcomeProperties" where
  "invalid_properties =
    \<lparr>p_tag = Val 7, p_bloom = Val ''forget'', p_verb = Val ''fly'', p_text = Val ''away'',
     p_mappings = Val [], p_assessments = Val [''essay''], p_strategies = Val [''lecture''],
     p_injected = [(''id'', Val ''42'')]\<rparr>"

definition invalid_outcome :: "(string, string, string nullable) LearningOutcome" where
  "invalid_outcome =
    \<lparr>out_source = \<lparr>src_author = ''ann'', src_name = Val ''crypto'', src_date = Val []\<rparr>,
     out_tag = Val 7, out_bloom = Val ''forget'', out_verb = Val ''fly'', out_text = Val ''away'',
     out_mappings = Val [],
     out_assessments = [\<lparr>ap_sourceBloom = Val ''forget'', ap_plan = Val ''essay'', ap_text = Val []\<rparr>],
     out_strategies =
       [\<lparr>is_sourceBloom = Val ''forget'', is_instruction = Val ''lecture'', is_text = Val []\<rparr>],
     out_injected = [''id'' \<mapsto> Val ''42'']\<rparr>"

lemma new_outcome_example:
  "new_LearningOutcome example_taxonomy (Val example_object) = Inr (blank_outcome (Val 3))"
  by (simp add: new_LearningOutcome_def example_taxonomy_def example_object_def blank_outcome_def
      truthy_def search.simps)

section \<open>Tag assignment\<close>

lemma search_not_in_tags: "search outcomes t \<notin> tags outcomes"
proof (induction outcomes t rule: search.induct)
  case (1 outcomes t)
  then show ?case
    by (cases "collides outcomes t") (simp_all add: search.simps [of outcomes t] collides_iff)
qed

lemma search_ge: "t \<le> search outcomes t"
proof (induction outcomes t rule: search.induct)
  case (1 outcomes t)
  then show ?case
    by (cases "collides outcomes t") (simp_all add: search.simps [of outcomes t])
qed

lemma search_skips_tags: "t \<le> k \<Longrightarrow> k < search outcomes t \<Longrightarrow> k \<in> tags outcomes"
proof (induction outcomes t rule: search.induct)
  case (1 outcomes t)
  show ?case
  proof (cases "collides outcomes t")
    case True
    show ?thesis
    proof (cases "k = t")
      case True
      with \<open>collides outcomes t\<close> show ?thesis
        by (simp add: collides_iff)
    next
      case False
      with "1.prems" have "t + 1 \<le> k"
        by simp
      moreover from "1.prems" True have "k < search outcomes (t + 1)"
        by (simp add: search.simps [of outcomes t])
      ultimately show ?thesis
        using "1.IH" True by simp
    qed
  next
    case False
    with "1.prems" show ?thesis
      by (simp add: search.simps [of outcomes t])
  qed
qed

text \<open>
  C1. Constructing a new outcome with an object as its source returns (the tag search
  ends, and the taxonomy has verbs for its first level), and the new outcome's tag is
  the smallest non-negative integer that is not the tag of one of the object's existing
  outcomes.
\<close>

theorem new_outcome_tag_is_least_free:
  assumes "verbs tx (to_string (first (levels tx))) = Some vs"
  shows "\<exists>outcome t. new_LearningOutcome tx (Val obj) = Inr outcome \<and>
    out_tag outcome = Val t \<and> 0 \<le> t \<and> t \<notin> tags (lo_outcomes obj) \<and>
    (\<forall>k. 0 \<le> k \<and> k < t \<longrightarrow> k \<in> tags (lo_outcomes obj))"
proof -
  define t where "t = search (lo_outcomes obj) 0"
  from assms obtain outcome where
    "new_LearningOutcome tx (Val obj) = Inr outcome" and "out_tag outcome = Val t"
    by (simp add: new_LearningOutcome_def Let_def truthy_def t_def)
  moreover have "0 \<le> t"
    unfolding t_def by (rule search_ge)
  moreover have "t \<notin> tags (lo_outcomes obj)"
    unfolding t_def by (rule search_not_in_tags)
  moreover have "k \<in> tags (lo_outcomes obj)" if "0 \<le> k \<and> k < t" for k
    using that search_skips_tags [of 0 k "lo_outcomes obj"] by (simp add: t_def)
  ultimately show ?thesis
    by blast
qed

lemma example_verbs:
  "verbs example_taxonomy (to_string (first (levels example_taxonomy))) = Some [''define'', ''list'']"
  by (simp add: example_taxonomy_def)

theorem new_outcome_tag_is_least_free_witness:
  "new_LearningOutcome example_taxonomy (Val example_object) = Inr (blank_outcome (Val 3)) \<and>
   out_tag (blank_outcome (Val 3)) = Val 3 \<and>
   3 \<notin> tags (lo_outcomes example_object) \<and>
   0 \<in> tags (lo_outcomes example_object) \<and>
   1 \<in> tags (lo_outcomes example_object) \<and>
   2 \<in> tags (lo_outcomes example_object)"
  using new_outcome_tag_is_least_free [OF example_verbs, of example_object] new_outcome_example
  by (simp add: blank_outcome_def example_object_def tags_def)

section \<open>The source of an outcome\<close>

text \<open>
  C9. The constructor reads the source's fields before it tests the source: with an
  undefined or null source it throws, and whenever it returns an outcome the source was
  an object (so the guard around the tag search was passed) and the outcome holds the
  snapshot of that object's author, name and date.
\<close>

theorem null_source_throws:
  "(source = Undefined \<or> source = Null \<longrightarrow> new_LearningOutcome tx source = Inl TypeError) \<and>
   (\<forall>outcome. new_LearningOutcome tx source = Inr outcome \<longrightarrow>
      (\<exists>s. source = Val s \<and> truthy source \<and>
           out_source outcome =
             \<lparr>src_author = lo_author s, src_name = lo_name s, src_date = lo_date s\<rparr>))"
  by (cases source) (auto simp: new_LearningOutcome_def Let_def truthy_def split: option.splits)

theorem null_source_throws_witness:
  "new_LearningOutcome example_taxonomy (Undefined :: (string, string, string) LearningObject nullable) = Inl TypeError \<and>
   new_LearningOutcome example_taxonomy (Null :: (string, string, string) LearningObject nullable) = Inl TypeError \<and>
   new_LearningOutcome example_taxonomy (Val example_object) = Inr (blank_outcome (Val 3)) \<and>
   out_source (blank_outcome (Val 3) :: (string, string, string) LearningOutcome) =
     \<lparr>src_author = lo_author example_object, src_name = lo_name example_object,
      src_date = lo_date example_object\<rparr>"
  using null_source_throws [of "Undefined :: (string, string, string) LearningObject nullable" example_taxonomy]
    null_source_throws [of "Null :: (string, string, string) LearningObject nullable" example_taxonomy]
    null_source_throws [of "Val example_object" example_taxonomy] new_outcome_example
  by simp

section \<open>The name of a learning object\<close>

text \<open>
  The claim C5 as stated fails: the setter has no check and does not trim. Assigning
  \<^verbatim>\<open>null\<close> or \<^verbatim>\<open>undefined\<close> succeeds, and a string with white space around it is
  stored as it is.
\<close>

theorem name_setter_counterexample:
  "set_name Null example_object = Inr (example_object\<lparr>lo_name := Null\<rparr>) \<and>
   set_name Undefined example_object = Inr (example_object\<lparr>lo_name := Undefined\<rparr>) \<and>
   set_name (Val '' crypto '') example_object = Inr (example_object\<lparr>lo_name := Val '' crypto ''\<rparr>) \<and>
   trim '' crypto '' = ''crypto''"
  by (simp add: set_name_def trim_def is_whitespace_def)

text \<open>
  C5 (amended). In the LearningObject of src/lib/learning-object.ts, assigning any value
  to the name (undefined, null or any string, the empty string included) succeeds and
  stores the argument as it is, untrimmed.
\<close>

theorem name_setter_stores_argument:
  "set_name name entity = Inr (entity\<lparr>lo_name := name\<rparr>) \<and>
   lo_name (entity\<lparr>lo_name := name\<rparr>) = name"
  by (simp add: set_name_def)

theorem name_setter_stores_argument_witness:
  "set_name (Val []) example_object = Inr (example_object\<lparr>lo_name := Val []\<rparr>) \<and>
   lo_name (example_object\<lparr>lo_name := Val []\<rparr>) = Val []"
  using name_setter_stores_argument [of "Val []" example_object] by simp

section \<open>The date of a learning object\<close>

text \<open>
  The claim C6 as stated fails: on a new object, whose date is the empty string, setting
  the length or adding a goal leaves the date empty, and the public setter of the date
  stores what it is given.
\<close>

theorem date_counterexample:
  "lo_date fresh_object = Val [] \<and>
   set_length example_taxonomy (Val ''module'') fresh_object =
     Inr (fresh_object\<lparr>lo_length := Val ''module''\<rparr>) \<and>
   lo_date (fresh_object\<lparr>lo_length := Val ''module''\<rparr>) = Val [] \<and>
   lo_date (snd (addGoal fresh_object)) = Val [] \<and>
   set_date (Val ''yesterday'') fresh_object = Inr (fresh_object\<lparr>lo_date := Val ''yesterday''\<rparr>)"
  by (simp add: fresh_object_def new_LearningObject_def set_length_def has_def
      example_taxonomy_def addGoal_def Let_def set_date_def)

text \<open>
  C6 (amended). In the LearningObject of src/lib/learning-object.ts, no setter and no add
  or remove method changes the date: after each of them the date is what it was before.
  The date has a public setter, which stores its argument.
\<close>

theorem mutations_leave_date:
  "(\<forall>e'. set_name name entity = Inr e' \<longrightarrow> lo_date e' = lo_date entity) \<and>
   (\<forall>e'. set_length tx len entity = Inr e' \<longrightarrow> lo_date e' = lo_date entity) \<and>
   lo_date (snd (addGoal entity)) = lo_date entity \<and>
   lo_date (snd (removeGoal i entity)) = lo_date entity \<and>
   (\<forall>outcome e'. addOutcome tx entity = Inr (outcome, e') \<longrightarrow> lo_date e' = lo_date entity) \<and>
   lo_date (snd (removeOutcome i entity)) = lo_date entity \<and>
   set_date date entity = Inr (entity\<lparr>lo_date := date\<rparr>)"
proof (intro conjI allI impI)
  show "lo_date e' = lo_date entity" if "set_name name entity = Inr e'" for e'
    using that by (auto simp: set_name_def)
  show "lo_date e' = lo_date entity" if "set_length tx len entity = Inr e'" for e'
    using that by (auto simp: set_length_def split: if_splits)
  show "lo_date (snd (addGoal entity)) = lo_date entity"
    by (simp add: addGoal_def Let_def)
  show "lo_date (snd (removeGoal i entity)) = lo_date entity"
    by (simp add: removeGoal_def split: prod.splits)
  show "lo_date e' = lo_date entity" if "addOutcome tx entity = Inr (outcome, e')" for outcome e'
    using that by (auto simp: addOutcome_def split: sum.splits)
  show "lo_date (snd (removeOutcome i entity)) = lo_date entity"
    by (simp add: removeOutcome_def split: prod.splits)
  show "set_date date entity = Inr (entity\<lparr>lo_date := date\<rparr>)"
    by (simp add: set_date_def)
qed

lemma fresh_set_name: "set_name (Val ''rsa'') fresh_object = Inr (fresh_object\<lparr>lo_name := Val ''rsa''\<rparr>)"
  by (simp add: set_name_def)

lemma fresh_set_length:
  "set_length example_taxonomy (Val ''module'') fresh_object = Inr (fresh_object\<lparr>lo_length := Val ''module''\<rparr>)"
  by (simp add: set_length_def has_def example_taxonomy_def)

lemma fresh_addOutcome:
  "addOutcome example_taxonomy fresh_object =
     Inr (blank_outcome (Val 0), fresh_object\<lparr>lo_outcomes := [blank_outcome (Val 0)]\<rparr>)"
  by (simp add: addOutcome_def new_LearningOutcome_def fresh_object_def new_LearningObject_def
      example_taxonomy_def blank_outcome_def truthy_def truthy_string_def search.simps)

theorem mutations_leave_date_witness:
  "set_name (Val ''rsa'') fresh_object = Inr (fresh_object\<lparr>lo_name := Val ''rsa''\<rparr>) \<and>
   lo_date (fresh_object\<lparr>lo_name := Val ''rsa''\<rparr>) = lo_date fresh_object \<and>
   set_length example_taxonomy (Val ''module'') fresh_object = Inr (fresh_object\<lparr>lo_length := Val ''module''\<rparr>) \<and>
   lo_date (fresh_object\<lparr>lo_length := Val ''module''\<rparr>) = lo_date fresh_object \<and>
   addOutcome example_taxonomy fresh_object =
     Inr (blank_outcome (Val 0), fresh_object\<lparr>lo_outcomes := [blank_outcome (Val 0)]\<rparr>) \<and>
   lo_date (fresh_object\<lparr>lo_outcomes := [blank_outcome (Val 0)]\<rparr>) = lo_date fresh_object \<and>
   lo_date (snd (addGoal fresh_object)) = lo_date fresh_object \<and>
   lo_date (snd (removeGoal 0 fresh_object)) = lo_date fresh_object \<and>
   lo_date (snd (removeOutcome 0 fresh_object)) = lo_date fresh_object \<and>
   set_date (Val ''yesterday'') fresh_object = Inr (fresh_object\<lparr>lo_date := Val ''yesterday''\<rparr>)"
  using mutations_leave_date [of "Val ''rsa''" fresh_object example_taxonomy "Val ''module''" 0 "Val ''yesterday''"]
    fresh_set_name fresh_set_length fresh_addOutcome
  by simp

section \<open>The setters of StandardOutcome\<close>

lemma all_dropWhile: "(\<forall>x\<in>set (dropWhile P xs). P x) \<longleftrightarrow> (\<forall>x\<in>set xs. P x)"
proof
  assume all: "\<forall>x\<in>set (dropWhile P xs). P x"
  have "dropWhile P xs = []"
  proof (rule ccontr)
    assume ne: "dropWhile P xs \<noteq> []"
    then have "\<not> P (hd (dropWhile P xs))"
      by (rule hd_dropWhile)
    moreover from ne have "hd (dropWhile P xs) \<in> set (dropWhile P xs)"
      by simp
    ultimately show False
      using all by blast
  qed
  then show "\<forall>x\<in>set xs. P x"
    by (simp add: dropWhile_eq_Nil_conv)
next
  assume "\<forall>x\<in>set xs. P x"
  then show "\<forall>x\<in>set (dropWhile P xs). P x"
    by (meson set_dropWhileD)
qed

lemma trim_empty_iff: "trim s = [] \<longleftrightarrow> (\<forall>c\<in>set s. is_whitespace c)"
proof -
  have "trim s = [] \<longleftrightarrow> (\<forall>c\<in>set (rev (dropWhile is_whitespace s)). is_whitespace c)"
    by (simp add: trim_def dropWhile_eq_Nil_conv)
  also have "\<dots> \<longleftrightarrow> (\<forall>c\<in>set (dropWhile is_whitespace s). is_whitespace c)"
    by simp
  also have "\<dots> \<longleftrightarrow> (\<forall>c\<in>set s. is_whitespace c)"
    by (rule all_dropWhile)
  finally show ?thesis .
qed

lemma valid_field_iff: "valid_field (Val s) \<longleftrightarrow> \<not> (\<forall>c\<in>set s. is_whitespace c)"
  by (cases s) (auto simp: valid_field_def trim_empty_iff)

text \<open>
  The claim C7 as stated fails: in the variant whose getters all return the author, the
  setters reject the empty string and strings of white space.
\<close>

theorem standard_outcome_setters_counterexample:
  "get_name example_standard = ''NIST'' \<and>
   get_date example_standard = ''NIST'' \<and>
   get_outcome example_standard = ''NIST'' \<and>
   set_so_author (Val []) example_standard = Inl INVALID_AUTHOR \<and>
   set_so_name (Val '' '') example_standard = Inl INVALID_NAME \<and>
   set_so_date (Val []) example_standard = Inl INVALID_DATE \<and>
   set_so_outcome (Val ''  '') example_standard = Inl INVALID_OUTCOME"
  by (simp add: get_name_def get_date_def get_outcome_def example_standard_def
      set_so_author_def set_so_name_def set_so_date_def set_so_outcome_def valid_field_def
      trim_def is_whitespace_def)

text \<open>
  C7 (amended). In the variant whose \<^verbatim>\<open>name\<close>, \<^verbatim>\<open>date\<close> and \<^verbatim>\<open>outcome\<close> getters return
  the author field, every setter validates: assigning a string that is empty or consists
  of white space only throws the error of that field, and assigning any other string
  succeeds and stores it as it is.
\<close>

theorem standard_outcome_setters_validate:
  "get_name this = so_author this \<and> get_date this = so_author this \<and>
   get_outcome this = so_author this \<and>
   set_so_author (Val s) this =
     (if \<forall>c\<in>set s. is_whitespace c then Inl INVALID_AUTHOR else Inr (this\<lparr>so_author := s\<rparr>)) \<and>
   set_so_name (Val s) this =
     (if \<forall>c\<in>set s. is_whitespace c then Inl INVALID_NAME else Inr (this\<lparr>so_name := s\<rparr>)) \<and>
   set_so_date (Val s) this =
     (if \<forall>c\<in>set s. is_whitespace c then Inl INVALID_DATE else Inr (this\<lparr>so_date := s\<rparr>)) \<and>
   set_so_outcome (Val s) this =
     (if \<forall>c\<in>set s. is_whitespace c then Inl INVALID_OUTCOME else Inr (this\<lparr>so_outcome := s\<rparr>))"
  by (simp add: get_name_def get_date_def get_outcome_def set_so_author_def set_so_name_def
      set_so_date_def set_so_outcome_def valid_field_iff)

theorem standard_outcome_setters_validate_witness:
  "set_so_author (Val ''ACM'') example_standard = Inr (example_standard\<lparr>so_author := ''ACM''\<rparr>) \<and>
   set_so_name (Val ''ACM'') example_standard = Inr (example_standard\<lparr>so_name := ''ACM''\<rparr>) \<and>
   set_so_date (Val ''ACM'') example_standard = Inr (example_standard\<lparr>so_date := ''ACM''\<rparr>) \<and>
   set_so_outcome (Val ''ACM'') example_standard = Inr (example_standard\<lparr>so_outcome := ''ACM''\<rparr>) \<and>
   set_so_author (Val '' '') example_standard = Inl INVALID_AUTHOR \<and>
   set_so_name (Val '' '') example_standard = Inl INVALID_NAME \<and>
   set_so_date (Val '' '') example_standard = Inl INVALID_DATE \<and>
   set_so_outcome (Val '' '') example_standard = Inl INVALID_OUTCOME \<and>
   get_name example_standard = so_author example_standard"
  using standard_outcome_setters_validate [of example_standard "''ACM''"]
    standard_outcome_setters_validate [of example_standard "'' ''"]
  by (simp add: is_whitespace_def)

section \<open>The constructor of StandardOutcome\<close>

lemma guarded_author:
  "so_author this = [] \<Longrightarrow>
   (if truthy_string v then set_so_author v this else Inr this) =
   (if whitespace_only v then Inl INVALID_AUTHOR else Inr (this\<lparr>so_author := or_empty v\<rparr>))"
  by (cases v)
    (auto simp: truthy_string_def whitespace_only_def set_so_author_def valid_field_iff or_empty_def)

lemma guarded_name:
  "so_name this = [] \<Longrightarrow>
   (if truthy_string v then set_so_name v this else Inr this) =
   (if whitespace_only v then Inl INVALID_NAME else Inr (this\<lparr>so_name := or_empty v\<rparr>))"
  by (cases v)
    (auto simp: truthy_string_def whitespace_only_def set_so_name_def valid_field_iff or_empty_def)

lemma guarded_date:
  "so_date this = [] \<Longrightarrow>
   (if truthy_string v then set_so_date v this else Inr this) =
   (if whitespace_only v then Inl INVALID_DATE else Inr (this\<lparr>so_date := or_empty v\<rparr>))"
  by (cases v)
    (auto simp: truthy_string_def whitespace_only_def set_so_date_def valid_field_iff or_empty_def)

lemma guarded_outcome:
  "so_outcome this = [] \<Longrightarrow>
   (if truthy_string v then set_so_outcome v this else Inr this) =
   (if whitespace_only v then Inl INVALID_OUTCOME else Inr (this\<lparr>so_outcome := or_empty v\<rparr>))"
  by (cases v)
    (auto simp: truthy_string_def whitespace_only_def set_so_outcome_def valid_field_iff or_empty_def)

text \<open>
  The claim C8 as stated fails: a partial object whose author is a single space makes
  the constructor throw, since the guarded assignment runs the setter.
\<close>

theorem construction_counterexample:
  "new_StandardOutcome
     (Val \<lparr>part_author = Val '' '', part_name = Undefined, part_date = Undefined,
           part_outcome = Undefined\<rparr>) = Inl INVALID_AUTHOR"
  by (simp add: new_StandardOutcome_def copyOutcome_def truthy_string_def set_so_author_def
      valid_field_def trim_def is_whitespace_def)

text \<open>
  C8 (amended). Constructing a StandardOutcome without an argument gives the four empty
  strings. Constructing it from a partial object copies the properties in the order
  author, name, date, outcome, each through the setter of the class when it is truthy:
  the first property that is present and consists of white space only makes the
  constructor throw the error of that field; otherwise every truthy property is copied
  and every missing, null or empty one keeps the empty-string default.
\<close>

theorem construction_validates_present_fields:
  "new_StandardOutcome Undefined = Inr \<lparr>so_author = [], so_name = [], so_date = [], so_outcome = []\<rparr> \<and>
   new_StandardOutcome Null = Inr \<lparr>so_author = [], so_name = [], so_date = [], so_outcome = []\<rparr> \<and>
   new_StandardOutcome (Val p) =
     (if whitespace_only (part_author p) then Inl INVALID_AUTHOR
      else if whitespace_only (part_name p) then Inl INVALID_NAME
      else if whitespace_only (part_date p) then Inl INVALID_DATE
      else if whitespace_only (part_outcome p) then Inl INVALID_OUTCOME
      else Inr \<lparr>so_author = or_empty (part_author p), so_name = or_empty (part_name p),
                so_date = or_empty (part_date p), so_outcome = or_empty (part_outcome p)\<rparr>)"
proof (intro conjI)
  show "new_StandardOutcome Undefined = Inr \<lparr>so_author = [], so_name = [], so_date = [], so_outcome = []\<rparr>"
    by (simp add: new_StandardOutcome_def)
  show "new_StandardOutcome Null = Inr \<lparr>so_author = [], so_name = [], so_date = [], so_outcome = []\<rparr>"
    by (simp add: new_StandardOutcome_def)
  show "new_StandardOutcome (Val p) =
     (if whitespace_only (part_author p) then Inl INVALID_AUTHOR
      else if whitespace_only (part_name p) then Inl INVALID_NAME
      else if whitespace_only (part_date p) then Inl INVALID_DATE
      else if whitespace_only (part_outcome p) then Inl INVALID_OUTCOME
      else Inr \<lparr>so_author = or_empty (part_author p), so_name = or_empty (part_name p),
                so_date = or_empty (part_date p), so_outcome = or_empty (part_outcome p)\<rparr>)"
    by (simp add: new_StandardOutcome_def copyOutcome_def guarded_author guarded_name
        guarded_date guarded_outcome)
qed

theorem construction_validates_present_fields_witness:
  "new_StandardOutcome (Val example_partial) =
     Inr \<lparr>so_author = ''NIST'', so_name = [], so_date = [], so_outcome = []\<rparr> \<and>
   new_StandardOutcome (Val (example_partial\<lparr>part_date := Val [CHR 0x09]\<rparr>)) = Inl INVALID_DATE"
  using construction_validates_present_fields [of example_partial]
    construction_validates_present_fields [of "example_partial\<lparr>part_date := Val [CHR 0x09]\<rparr>"]
  by (simp add: example_partial_def whitespace_only_def or_empty_def is_whitespace_def)

section \<open>Serialization and reconstruction\<close>

subsection \<open>The length-prefixed instance of the platform functions\<close>

lemma dec_nat_enc_nat: "dec_nat (enc_nat n @ r) = (n, r)"
proof -
  have "takeWhile (\<lambda>c. c = CHR ''1'') (replicate n (CHR ''1'') @ CHR ''0'' # r) = replicate n (CHR ''1'')"
    by (induction n) simp_all
  then show ?thesis
    by (simp add: dec_nat_def enc_nat_def Let_def)
qed

lemma dec_string_enc_string: "dec_string (enc_string s @ r) = (s, r)"
  by (simp add: dec_string_def enc_string_def dec_nat_enc_nat)

lemma dec_many_enc: "dec_many (length xs) (concat (map enc_string xs) @ r) = (xs, r)"
  by (induction xs) (simp_all add: dec_string_enc_string)

lemma dec_strings_enc_strings: "dec_strings (enc_strings xs @ r) = (xs, r)"
  by (simp add: dec_strings_def enc_strings_def dec_nat_enc_nat dec_many_enc)

lemma dec_repository_enc_repository: "dec_repository (enc_repository x @ r) = (x, r)"
  by (simp add: dec_repository_def enc_repository_def dec_strings_enc_strings
      dec_string_enc_string)

lemma dec_nullable_enc_nullable:
  assumes "\<And>x r. dec (enc x @ r) = (x, r)"
  shows "dec_nullable dec (enc_nullable enc v @ r) = (v, r)"
  by (cases v) (simp_all add: dec_nullable_def enc_nullable_def assms)

lemma dec_goal_enc_goal: "dec_goal (enc_goal doc) = doc"
  using dec_nullable_enc_nullable [of dec_string enc_string "doc_text doc" "[]"]
  by (simp add: dec_goal_def enc_goal_def dec_string_enc_string)

lemma dec_object_enc_object: "dec_object (enc_object doc) = doc"
proof -
  note nullable_string = dec_nullable_enc_nullable [of dec_string enc_string, OF dec_string_enc_string]
  note nullable_strings = dec_nullable_enc_nullable [of dec_strings enc_strings, OF dec_strings_enc_strings]
  note nullable_repository =
    dec_nullable_enc_nullable [of dec_repository enc_repository, OF dec_repository_enc_repository]
  have "dec_nullable dec_repository (enc_nullable enc_repository (doc_repository doc)) =
      (doc_repository doc, [])"
    using nullable_repository [of "doc_repository doc" "[]"] by simp
  then show ?thesis
    by (simp add: dec_object_def enc_object_def nullable_string nullable_strings)
qed



subsection \<open>The round trip of a learning object\<close>

lemma map_result_total:
  "\<forall>x\<in>set xs. \<exists>y. f x = Inr y \<Longrightarrow> \<exists>ys. map_result f xs = Inr ys \<and> length ys = length xs"
  by (induction xs) auto




lemma unserialize_example:
  "LearningObject_unserialize example_taxonomy prefix_JSON example_outcome_unserialize
     (LearningObject_serialize prefix_JSON example_outcome_serialize serialized_object) ''ann'' =
   Inr serialized_object"
  by (simp add: LearningObject_unserialize_def LearningObject_serialize_def
      LearningObject_document_def prefix_JSON_def dec_object_enc_object dec_goal_enc_goal
      map_array_def LearningGoal_unserialize_def LearningGoal_serialize_def new_LearningGoal_def
      serialized_object_def example_outcome_unserialize_def example_outcome_serialize_def
      blank_outcome_def enc_nat_def dec_nat_def new_LearningObject_def)




subsection \<open>Reconstruction without validation\<close>

lemma source_outcome_example:
  "new_LearningOutcome example_taxonomy (Val example_source) =
   Inr \<lparr>out_source = \<lparr>src_author = ''ann'', src_name = Val ''crypto'', src_date = Val []\<rparr>,
        out_tag = Val 0, out_bloom = Val ''remember'', out_verb = Val ''define'',
        out_text = Val [], out_mappings = Val [], out_assessments = [], out_strategies = [],
        out_injected = (\<lambda>k. None)\<rparr>"
  by (simp add: new_LearningOutcome_def example_taxonomy_def example_source_def truthy_def
      search.simps)

lemma instantiate_example:
  "instantiate example_taxonomy example_ap_instantiate example_is_instantiate (Val example_source)
     invalid_properties = (Inr invalid_outcome, delete_known invalid_properties)"
  by (simp add: instantiate_def source_outcome_example invalid_properties_def
      invalid_outcome_def map_array_def example_ap_instantiate_def example_is_instantiate_def
      delete_known_def assign_def getter_only_def own_property_def)

lemma invalid_object_text:
  \<open>example_stringify_object invalid_object_doc =
   ''{"name":"crypto","date":"","length":"fortnight","goals":[],"outcomes":[],'' @
   ''"repository":{"files":[],"urls":[],"notes":""}}''\<close>
  by code_simp

lemma name_only_text: \<open>example_stringify_object name_only_doc = ''{"name":"crypto"}''\<close>
  by code_simp

lemma unserialize_invalid_example:
  "LearningObject_unserialize example_taxonomy example_JSON example_outcome_unserialize
     (example_stringify_object invalid_object_doc) ''ann'' =
   Inr (fresh_object\<lparr>lo_length := Val ''fortnight''\<rparr>)"
  by (simp add: LearningObject_unserialize_def example_JSON_def map_array_def
      fresh_object_def new_LearningObject_def truthy_string_def example_taxonomy_def)
    (simp add: invalid_object_doc_def map_array_def)

lemma unserialize_name_only_example:
  "LearningObject_unserialize example_taxonomy example_JSON example_outcome_unserialize
     (example_stringify_object name_only_doc) ''ann'' = Inl TypeError"
  by (simp add: LearningObject_unserialize_def example_JSON_def invalid_object_text
      name_only_text)
    (simp add: name_only_doc_def map_array_def)

text \<open>
  The claim C2 as stated fails: a document whose length is outside the taxonomy is
  unserialized into an object holding that length, although the setter rejects it; and
  \<^verbatim>\<open>instantiate\<close> returns an outcome holding a bloom taxon and a verb that the setters
  reject.
\<close>

theorem reconstruction_counterexample:
  \<open>example_stringify_object invalid_object_doc =
     ''{"name":"crypto","date":"","length":"fortnight","goals":[],"outcomes":[],'' @
     ''"repository":{"files":[],"urls":[],"notes":""}}'' \<and>
   LearningObject_unserialize example_taxonomy example_JSON example_outcome_unserialize
     (example_stringify_object invalid_object_doc) ''ann'' =
     Inr (fresh_object\<lparr>lo_length := Val ''fortnight''\<rparr>) \<and>
   set_length example_taxonomy (Val ''fortnight'') fresh_object =
     Inl (Thrown ''fortnight is not a valid Learning Object class'') \<and>
   instantiate example_taxonomy example_ap_instantiate example_is_instantiate (Val example_source)
     invalid_properties = (Inr invalid_outcome, delete_known invalid_properties) \<and>
   out_bloom invalid_outcome = Val ''forget'' \<and>
   out_verb invalid_outcome = Val ''fly'' \<and>
   set_bloom example_taxonomy (Val ''forget'') (blank_outcome (Val 7)) =
     Inl (Thrown ''forget is not a valid Bloom taxon'') \<and>
   set_verb example_taxonomy (Val ''fly'') (blank_outcome (Val 7)) =
     Inl (Thrown ''fly is not a valid verb for the remember taxon'')\<close>
  using unserialize_invalid_example instantiate_example invalid_object_text
  by (simp add: set_length_def has_def example_taxonomy_def invalid_outcome_def set_bloom_def
      set_verb_def blank_outcome_def)

lemma copy_injected_plain:
  "\<forall>(k, v)\<in>set kvs. k \<notin> set accessors \<Longrightarrow>
   \<exists>outcome'. copy_injected tx proto kvs outcome = Inr outcome' \<and>
     out_tag outcome' = out_tag outcome \<and> out_bloom outcome' = out_bloom outcome \<and>
     out_verb outcome' = out_verb outcome \<and> out_text outcome' = out_text outcome \<and>
     out_mappings outcome' = out_mappings outcome"
proof (induction kvs arbitrary: proto outcome)
  case Nil
  then show ?case by simp
next
  case (Cons kv kvs)
  obtain k v where kv: "kv = (k, v)"
    by (cases kv)
  from Cons.prems kv have k: "k \<notin> set accessors" and rest: "\<forall>(k, v)\<in>set kvs. k \<notin> set accessors"
    by auto
  show ?case
  proof (cases "proto \<and> k \<noteq> ''__proto__''")
    case True
    with k have "assign tx k v outcome = Inr (own_property k v outcome)"
      by (simp add: assign_def accessors_def)
    with True kv Cons.IH [OF rest, of True "own_property k v outcome"] show ?thesis
      by (simp add: own_property_def)
  next
    case False
    show ?thesis
    proof (cases proto)
      case True
      with False kv Cons.IH [OF rest, of "v \<noteq> Null" outcome] show ?thesis
        by simp
    next
      case False
      with kv Cons.IH [OF rest, of False "own_property k v outcome"] show ?thesis
        by (simp add: own_property_def)
    qed
  qed
qed

lemma map_array_total:
  "arr = Val xs \<Longrightarrow> \<forall>x\<in>set xs. \<exists>y. f x = Inr y \<Longrightarrow>
   \<exists>ys. map_array f arr = Inr ys \<and> length ys = length xs"
  using map_result_total [of xs f] by (simp add: map_array_def)

text \<open>
  C2 (amended). \<^verbatim>\<open>unserialize\<close> and \<^verbatim>\<open>instantiate\<close> assign the private fields directly
  and run no validation on them. Whenever the text parses to an object that holds an
  array of goal texts and an array of outcome texts, every goal text parses to an object
  and every outcome text unserializes, \<^verbatim>\<open>LearningObject.unserialize\<close> returns an object
  holding the name, date, length and repository of the document, whatever they are.
  Whenever the source is an object, the taxonomy has verbs for its first level, the
  properties object holds an array of assessments and an array of strategies whose
  elements instantiate, and none of its other keys names an accessor of the class,
  \<^verbatim>\<open>LearningOutcome.instantiate\<close> returns an outcome holding the tag, bloom taxon, verb,
  text and mappings of the properties object, whatever they are.
\<close>

theorem reconstruction_copies_unchecked:
  fixes outcome_unserialize ::
      "string \<Rightarrow> ('u, 'm, 'x) LearningObject \<Rightarrow> error + ('u, 'm, 'x) LearningOutcome"
    and ap_instantiate :: "('v, 'n, string nullable) LearningOutcome \<Rightarrow> 'ap \<Rightarrow> error + AssessmentPlan"
    and is_instantiate ::
      "('v, 'n, string nullable) LearningOutcome \<Rightarrow> 'sp \<Rightarrow> error + InstructionalStrategy"
  shows
  "(parse_object J msg = Some (Val doc) \<and>
    doc_goals doc = Val goal_texts \<and>
    (\<forall>a\<in>set goal_texts. \<exists>goal_doc. parse_goal J a = Some (Val goal_doc)) \<and>
    doc_outcomes doc = Val outcome_texts \<and>
    (\<forall>a\<in>set outcome_texts. \<forall>parent. \<exists>outcome. outcome_unserialize a parent = Inr outcome) \<longrightarrow>
    (\<exists>entity. LearningObject_unserialize tx J outcome_unserialize msg author = Inr entity \<and>
       lo_name entity = doc_name doc \<and> lo_date entity = doc_date doc \<and>
       lo_length entity = doc_length doc \<and>
       length (lo_goals entity) = length goal_texts \<and>
       length (lo_outcomes entity) = length outcome_texts \<and>
       lo_repository entity = doc_repository doc)) \<and>
   (source = Val s \<and>
    verbs tx' (to_string (first (levels tx'))) = Some vs \<and>
    p_assessments object = Val plans \<and>
    (\<forall>a\<in>set plans. \<forall>outcome. \<exists>plan. ap_instantiate outcome a = Inr plan) \<and>
    p_strategies object = Val strategies \<and>
    (\<forall>a\<in>set strategies. \<forall>outcome. \<exists>strategy. is_instantiate outcome a = Inr strategy) \<and>
    (\<forall>(k, v)\<in>set (p_injected object). k \<notin> set accessors) \<longrightarrow>
    (\<exists>outcome.
       instantiate tx' ap_instantiate is_instantiate source object =
         (Inr outcome, delete_known object) \<and>
       out_tag outcome = p_tag object \<and> out_bloom outcome = p_bloom object \<and>
       out_verb outcome = p_verb object \<and> out_text outcome = p_text object \<and>
       out_mappings outcome = p_mappings object))"
proof (intro conjI impI)
  assume hyps: "parse_object J msg = Some (Val doc) \<and>
    doc_goals doc = Val goal_texts \<and>
    (\<forall>a\<in>set goal_texts. \<exists>goal_doc. parse_goal J a = Some (Val goal_doc)) \<and>
    doc_outcomes doc = Val outcome_texts \<and>
    (\<forall>a\<in>set outcome_texts. \<forall>parent. \<exists>outcome. outcome_unserialize a parent = Inr outcome)"
  define entity1 :: "('u, 'm, 'x) LearningObject" where
    "entity1 = (new_LearningObject tx author Undefined)
       \<lparr>lo_name := doc_name doc, lo_date := doc_date doc, lo_length := doc_length doc\<rparr>"
  from hyps have "\<forall>a\<in>set goal_texts. \<exists>g. LearningGoal_unserialize J a entity1 = Inr g"
    by (auto simp: LearningGoal_unserialize_def)
  then obtain goals where goals:
    "map_result (\<lambda>a. LearningGoal_unserialize J a entity1) goal_texts = Inr goals"
    "length goals = length goal_texts"
    using map_result_total [of goal_texts "\<lambda>a. LearningGoal_unserialize J a entity1"]
    by blast
  from hyps have "\<forall>a\<in>set outcome_texts.
      \<exists>outcome. outcome_unserialize a (entity1\<lparr>lo_goals := goals\<rparr>) = Inr outcome"
    by blast
  then obtain outcomes where outcomes:
    "map_result (\<lambda>a. outcome_unserialize a (entity1\<lparr>lo_goals := goals\<rparr>)) outcome_texts =
       Inr outcomes"
    "length outcomes = length outcome_texts"
    using map_result_total
      [of outcome_texts "\<lambda>a. outcome_unserialize a (entity1\<lparr>lo_goals := goals\<rparr>)"]
    by blast
  have "LearningObject_unserialize tx J outcome_unserialize msg author =
      Inr (entity1\<lparr>lo_goals := goals, lo_outcomes := outcomes,
             lo_repository := doc_repository doc\<rparr>)"
    using hyps goals(1) outcomes(1)
    by (simp add: LearningObject_unserialize_def map_array_def Let_def entity1_def)
  then show "\<exists>entity. LearningObject_unserialize tx J outcome_unserialize msg author = Inr entity \<and>
       lo_name entity = doc_name doc \<and> lo_date entity = doc_date doc \<and>
       lo_length entity = doc_length doc \<and>
       length (lo_goals entity) = length goal_texts \<and>
       length (lo_outcomes entity) = length outcome_texts \<and>
       lo_repository entity = doc_repository doc"
    using goals(2) outcomes(2) by (simp add: entity1_def)
next
  assume hyps: "source = Val s \<and>
    verbs tx' (to_string (first (levels tx'))) = Some vs \<and>
    p_assessments object = Val plans \<and>
    (\<forall>a\<in>set plans. \<forall>outcome. \<exists>plan. ap_instantiate outcome a = Inr plan) \<and>
    p_strategies object = Val strategies \<and>
    (\<forall>a\<in>set strategies. \<forall>outcome. \<exists>strategy. is_instantiate outcome a = Inr strategy) \<and>
    (\<forall>(k, v)\<in>set (p_injected object). k \<notin> set accessors)"
  then obtain outcome0 where outcome0: "new_LearningOutcome tx' source = Inr outcome0"
    by (simp add: new_LearningOutcome_def Let_def)
  define outcome1 where
    "outcome1 = outcome0\<lparr>out_tag := p_tag object, out_bloom := p_bloom object,
       out_verb := p_verb object, out_text := p_text object, out_mappings := p_mappings object\<rparr>"
  from hyps obtain ps where ps: "map_array (ap_instantiate outcome1) (p_assessments object) = Inr ps"
    using map_array_total [of "p_assessments object" plans "ap_instantiate outcome1"] by blast
  define outcome2 where "outcome2 = outcome1\<lparr>out_assessments := ps\<rparr>"
  from hyps obtain ss where ss: "map_array (is_instantiate outcome2) (p_strategies object) = Inr ss"
    using map_array_total [of "p_strategies object" strategies "is_instantiate outcome2"] by blast
  define outcome3 where "outcome3 = outcome2\<lparr>out_strategies := ss\<rparr>"
  from hyps have "\<forall>(k, v)\<in>set (p_injected (delete_known object)). k \<notin> set accessors"
    by (simp add: delete_known_def)
  then obtain outcome where copied:
    "copy_injected tx' True (p_injected (delete_known object)) outcome3 = Inr outcome"
    and fields: "out_tag outcome = out_tag outcome3" "out_bloom outcome = out_bloom outcome3"
      "out_verb outcome = out_verb outcome3" "out_text outcome = out_text outcome3"
      "out_mappings outcome = out_mappings outcome3"
    using copy_injected_plain [of "p_injected (delete_known object)" tx' True outcome3] by blast
  have "instantiate tx' ap_instantiate is_instantiate source object =
      (Inr outcome, delete_known object)"
    using outcome0 ps ss copied
    by (simp add: instantiate_def Let_def outcome1_def outcome2_def outcome3_def)
  then show "\<exists>outcome.
       instantiate tx' ap_instantiate is_instantiate source object =
         (Inr outcome, delete_known object) \<and>
       out_tag outcome = p_tag object \<and> out_bloom outcome = p_bloom object \<and>
       out_verb outcome = p_verb object \<and> out_text outcome = p_text object \<and>
       out_mappings outcome = p_mappings object"
    using fields by (simp add: outcome3_def outcome2_def outcome1_def)
qed

theorem reconstruction_copies_unchecked_witness:
  "LearningObject_unserialize example_taxonomy prefix_JSON example_outcome_unserialize
     (LearningObject_serialize prefix_JSON example_outcome_serialize serialized_object) ''ann'' =
     Inr serialized_object \<and>
   instantiate example_taxonomy example_ap_instantiate example_is_instantiate (Val example_source)
     invalid_properties = (Inr invalid_outcome, delete_known invalid_properties) \<and>
   out_bloom invalid_outcome = p_bloom invalid_properties \<and>
   out_verb invalid_outcome = p_verb invalid_properties"
  using reconstruction_copies_unchecked
      [where J = prefix_JSON
         and msg = "LearningObject_serialize prefix_JSON example_outcome_serialize serialized_object"
         and doc = "LearningObject_document prefix_JSON example_outcome_serialize serialized_object"
         and goal_texts = "map (LearningGoal_serialize prefix_JSON) (lo_goals serialized_object)"
         and outcome_texts = "map example_outcome_serialize (lo_outcomes serialized_object)"
         and outcome_unserialize = example_outcome_unserialize
         and tx = example_taxonomy and author = "''ann''" and tx' = example_taxonomy
         and ap_instantiate = example_ap_instantiate and is_instantiate = example_is_instantiate
         and source = "Val example_source" and s = example_source
         and vs = "[''define'', ''list'']" and object = invalid_properties
         and plans = "[''essay'']" and strategies = "[''lecture'']"]
    unserialize_example instantiate_example
  by (simp add: invalid_outcome_def invalid_properties_def)

section \<open>What the add methods return\<close>

text \<open>
  The claim C4 as stated fails: in src/lib/learning-outcome/learning-outcome.ts,
  \<^verbatim>\<open>mapTo\<close> on an outcome without mappings returns 0 while the array then has length 1;
  and \<^verbatim>\<open>addGoal\<close> returns the new goal, not a number.
\<close>

theorem mapTo_counterexample:
  "mapTo2 ''standard'' blank_outcome2 = (0, blank_outcome2\<lparr>v2_mappings := [''standard'']\<rparr>) \<and>
   length (v2_mappings (blank_outcome2\<lparr>v2_mappings := [''standard'']\<rparr>)) = 1 \<and>
   fst (addGoal fresh_object) = \<lparr>goal_text = Val []\<rparr>"
  by (simp add: mapTo2_def blank_outcome2_def addGoal_def new_LearningGoal_def Let_def)

text \<open>
  C4 (amended). In src/lib/learning-outcome.ts, \<^verbatim>\<open>mapTo\<close> appends the mapping and returns
  the new length of the mappings array. In src/lib/learning-outcome/learning-outcome.ts,
  \<^verbatim>\<open>mapTo\<close> appends the mapping and returns its 0-based index. \<^verbatim>\<open>addGoal\<close> and
  \<^verbatim>\<open>addOutcome\<close> of the LearningObject of src/lib/learning-object.ts append a new element
  and return the element itself.
\<close>

theorem add_methods_return_values:
  "(\<forall>ms. out_mappings outcome = Val ms \<longrightarrow>
      mapTo mapping outcome =
        Inr (int (length ms) + 1, outcome\<lparr>out_mappings := Val (ms @ [mapping])\<rparr>)) \<and>
   fst (mapTo2 standard later) = int (length (v2_mappings later)) \<and>
   v2_mappings (snd (mapTo2 standard later)) = v2_mappings later @ [standard] \<and>
   v2_mappings (snd (mapTo2 standard later)) ! nat (fst (mapTo2 standard later)) = standard \<and>
   fst (addGoal entity) = \<lparr>goal_text = Val []\<rparr> \<and>
   lo_goals (snd (addGoal entity)) = lo_goals entity @ [fst (addGoal entity)] \<and>
   (\<forall>outcome' entity'. addOutcome tx entity = Inr (outcome', entity') \<longrightarrow>
      new_LearningOutcome tx (Val entity) = Inr outcome' \<and>
      lo_outcomes entity' = lo_outcomes entity @ [outcome'])"
proof (intro conjI allI impI)
  show "mapTo mapping outcome = Inr (int (length ms) + 1, outcome\<lparr>out_mappings := Val (ms @ [mapping])\<rparr>)"
    if "out_mappings outcome = Val ms" for ms
    using that by (simp add: mapTo_def)
  show "fst (mapTo2 standard later) = int (length (v2_mappings later))"
    by (simp add: mapTo2_def Let_def)
  show "v2_mappings (snd (mapTo2 standard later)) = v2_mappings later @ [standard]"
    by (simp add: mapTo2_def Let_def)
  show "v2_mappings (snd (mapTo2 standard later)) ! nat (fst (mapTo2 standard later)) = standard"
    by (simp add: mapTo2_def Let_def)
  show "fst (addGoal entity) = \<lparr>goal_text = Val []\<rparr>"
    by (simp add: addGoal_def new_LearningGoal_def Let_def)
  show "lo_goals (snd (addGoal entity)) = lo_goals entity @ [fst (addGoal entity)]"
    by (simp add: addGoal_def Let_def)
  show "new_LearningOutcome tx (Val entity) = Inr outcome'"
    if "addOutcome tx entity = Inr (outcome', entity')" for outcome' entity'
    using that by (auto simp: addOutcome_def split: sum.splits)
  show "lo_outcomes entity' = lo_outcomes entity @ [outcome']"
    if "addOutcome tx entity = Inr (outcome', entity')" for outcome' entity'
    using that by (auto simp: addOutcome_def split: sum.splits)
qed

theorem add_methods_return_values_witness:
  "mapTo ''standard'' (blank_outcome (Val 0)) =
     Inr (1, blank_outcome (Val 0)\<lparr>out_mappings := Val [''standard'']\<rparr>) \<and>
   mapTo2 ''standard'' blank_outcome2 = (0, blank_outcome2\<lparr>v2_mappings := [''standard'']\<rparr>) \<and>
   addGoal fresh_object = (\<lparr>goal_text = Val []\<rparr>, fresh_object\<lparr>lo_goals := [\<lparr>goal_text = Val []\<rparr>]\<rparr>) \<and>
   addOutcome example_taxonomy fresh_object =
     Inr (blank_outcome (Val 0), fresh_object\<lparr>lo_outcomes := [blank_outcome (Val 0)]\<rparr>) \<and>
   new_LearningOutcome example_taxonomy (Val fresh_object) = Inr (blank_outcome (Val 0))"
  using add_methods_return_values
      [where outcome = "blank_outcome (Val 0)" and mapping = "''standard''"
         and standard = "''standard''" and later = blank_outcome2
         and entity = fresh_object and tx = example_taxonomy]
    fresh_addOutcome
  by (simp add: blank_outcome_def mapTo2_def blank_outcome2_def addGoal_def new_LearningGoal_def
      fresh_object_def new_LearningObject_def Let_def)

section \<open>The properties object after \<^verbatim>\<open>instantiate\<close>\<close>










lemma instantiate_bloom_example:
  "fst (instantiate example_taxonomy example_ap_instantiate example_is_instantiate
     (Val example_source) (invalid_properties\<lparr>p_injected := [(''bloom'', Val ''apply'')]\<rparr>)) =
   Inr (invalid_outcome\<lparr>out_bloom := Val ''apply'', out_injected := (\<lambda>k. None)\<rparr>)"
  by (simp add: instantiate_def source_outcome_example invalid_properties_def invalid_outcome_def
      map_array_def example_ap_instantiate_def example_is_instantiate_def
      delete_known_def assign_def)
    (simp add: set_bloom_def has_def example_taxonomy_def)


end
